theory Spec2Isabelle
  imports Main
begin

section \<open>Python values as the validator sees them\<close>

text \<open>
  The competency questions are loaded with \<^verbatim>\<open>yaml.safe_load\<close>, so a field of a
  question is a YAML value: null, a boolean, an integer, a string, a sequence, or a
  timestamp (an unquoted \<^verbatim>\<open>2024-01-01\<close> loads as \<^verbatim>\<open>datetime.date\<close>). Floats and
  mappings are left out of the model. Strings are sequences of characters below 128.
\<close>

datatype pyval =
    PNone
  | PBool bool
  | PInt int
  | PStr string
  | PList "pyval list"
  | PDate nat nat nat

text \<open>\<^verbatim>\<open>sep.join(xs)\<close>\<close>

fun join :: "string \<Rightarrow> string list \<Rightarrow> string" where
  "join sep [] = []"
| "join sep [x] = x"
| "join sep (x # y # ys) = x @ sep @ join sep (y # ys)"

definition digit_char :: "nat \<Rightarrow> char" where
  "digit_char d = ''0123456789abcdef'' ! d"

fun str_of_nat :: "nat \<Rightarrow> string" where
  "str_of_nat n = (if n < 10 then [digit_char n] else str_of_nat (n div 10) @ [digit_char (n mod 10)])"

declare str_of_nat.simps [simp del]

definition str_of_int :: "int \<Rightarrow> string" where
  "str_of_int i = (if i < 0 then CHR ''-'' # str_of_nat (nat (- i)) else str_of_nat (nat i))"

text \<open>Zero padding of a decimal to a minimal width, as \<^verbatim>\<open>%04d\<close> and \<^verbatim>\<open>%02d\<close> do.\<close>

definition zero_pad :: "nat \<Rightarrow> nat \<Rightarrow> string" where
  "zero_pad w n = (let d = str_of_nat n in replicate (w - length d) CHR ''0'' @ d)"

text \<open>
  \<^verbatim>\<open>repr\<close> of a string: single quotes unless the text has a single quote and no double
  quote; the quote and the backslash are escaped, as are tab, newline, carriage return and
  the other control characters.
\<close>

definition escape_char :: "char \<Rightarrow> char \<Rightarrow> string" where
  "escape_char q c =
     (if c = q \<or> c = CHR 0x5C then [CHR 0x5C, c]
      else if c = CHR 0x09 then [CHR 0x5C, CHR ''t'']
      else if c = CHR 0x0A then [CHR 0x5C, CHR ''n'']
      else if c = CHR 0x0D then [CHR 0x5C, CHR ''r'']
      else if (of_char c :: nat) < 32 \<or> (of_char c :: nat) = 127
        then [CHR 0x5C, CHR ''x'', digit_char ((of_char c :: nat) div 16), digit_char ((of_char c :: nat) mod 16)]
      else [c])"

definition repr_str :: "string \<Rightarrow> string" where
  "repr_str s =
     (let q = (if CHR 0x27 \<in> set s \<and> CHR 0x22 \<notin> set s then CHR 0x22 else CHR 0x27)
      in q # concat (map (escape_char q) s) @ [q])"

fun py_repr :: "pyval \<Rightarrow> string" where
  "py_repr PNone = ''None''"
| "py_repr (PBool b) = (if b then ''True'' else ''False'')"
| "py_repr (PInt i) = str_of_int i"
| "py_repr (PStr s) = repr_str s"
| "py_repr (PList xs) = ''['' @ join '', '' (map py_repr xs) @ '']''"
| "py_repr (PDate y m d) =
     ''datetime.date('' @ str_of_nat y @ '', '' @ str_of_nat m @ '', '' @ str_of_nat d @ '')''"

text \<open>\<^verbatim>\<open>str(x)\<close>: the text itself for a string, the ISO form for a date, \<^verbatim>\<open>repr\<close> otherwise.\<close>

fun py_str :: "pyval \<Rightarrow> string" where
  "py_str (PStr s) = s"
| "py_str (PDate y m d) = zero_pad 4 y @ ''-'' @ zero_pad 2 m @ ''-'' @ zero_pad 2 d"
| "py_str v = py_repr v"

text \<open>Truthiness, as \<^verbatim>\<open>or\<close> and \<^verbatim>\<open>if\<close> test it.\<close>

fun truthy :: "pyval \<Rightarrow> bool" where
  "truthy PNone = False"
| "truthy (PBool b) = b"
| "truthy (PInt i) = (i \<noteq> 0)"
| "truthy (PStr s) = (s \<noteq> [])"
| "truthy (PList xs) = (xs \<noteq> [])"
| "truthy (PDate y m d) = True"

definition py_or :: "pyval \<Rightarrow> pyval \<Rightarrow> pyval" where
  "py_or a b = (if truthy a then a else b)"

text \<open>\<^verbatim>\<open>isinstance(x, int)\<close> holds for booleans too: \<^verbatim>\<open>bool\<close> is a subclass of \<^verbatim>\<open>int\<close>.\<close>

fun isinstance_int :: "pyval \<Rightarrow> bool" where
  "isinstance_int (PInt i) = True"
| "isinstance_int (PBool b) = True"
| "isinstance_int v = False"

fun isinstance_list :: "pyval \<Rightarrow> bool" where
  "isinstance_list (PList xs) = True"
| "isinstance_list v = False"

text \<open>\<^verbatim>\<open>x == n\<close> for an integer \<open>n\<close>: a boolean compares as 0 or 1.\<close>

fun eq_int :: "pyval \<Rightarrow> int \<Rightarrow> bool" where
  "eq_int (PInt i) n = (i = n)"
| "eq_int (PBool b) n = ((if b then 1 else 0) = n)"
| "eq_int v n = False"

text \<open>\<^verbatim>\<open>x == b\<close> for a boolean \<open>b\<close>.\<close>

definition eq_bool :: "pyval \<Rightarrow> bool \<Rightarrow> bool" where
  "eq_bool v b = eq_int v (if b then 1 else 0)"

text \<open>What \<^verbatim>\<open>json.dumps\<close> accepts: it raises \<^verbatim>\<open>TypeError\<close> on a date.\<close>

fun json_ok :: "pyval \<Rightarrow> bool" where
  "json_ok (PList xs) = list_all json_ok xs"
| "json_ok (PDate y m d) = False"
| "json_ok v = True"

section \<open>The validator (validator.py)\<close>

subsection \<open>Exceptions, the run log and the external libraries\<close>

datatype exn =
    TypeError string
  | ParseError string
  | ReasonerError string
  | SystemExit int

text \<open>
  A line of the structured run log: the JSON object written by \<open>emit_log\<close> (timestamp,
  stage, further fields), or a plain message written with \<^verbatim>\<open>LOG.info\<close>.
\<close>

datatype log_line =
    JsonLine nat string "(string \<times> pyval) list"
  | TextLine string

text \<open>A competency question is the dictionary loaded from the question file.\<close>

type_synonym cq = "string \<rightharpoonup> pyval"

text \<open>\<^verbatim>\<open>d.get(key, default)\<close>\<close>

definition dict_get :: "cq \<Rightarrow> string \<Rightarrow> pyval \<Rightarrow> pyval" where
  "dict_get d k dflt = (case d k of None \<Rightarrow> dflt | Some v \<Rightarrow> v)"

text \<open>
  A result row: one with an \<^verbatim>\<open>asdict\<close> method (the variable bindings, in order), or
  any other value.
\<close>

datatype row =
    HasAsdict "(string \<times> pyval) list"
  | Plain pyval

text \<open>
  What \<^verbatim>\<open>g.query\<close> returns: a value for which \<^verbatim>\<open>isinstance(res, bool)\<close> holds, or an
  iterable of rows, taken to be finite and to iterate without raising. A result object
  that yields its truth value when iterated is the one-row result \<open>QRows [Plain (PBool b)]\<close>.
\<close>

datatype qresult =
    QBool bool
  | QRows "row list"

text \<open>What the reasoner session does on a graph.\<close>

datatype reasoner_outcome =
    Classified "string list"
  | InconsistentOntology
  | ReasonerFailed string

text \<open>
  The per-question outcome dictionary. \<open>error = None\<close> is a dictionary without the key
  \<^verbatim>\<open>error\<close>; \<open>actual\<close> is \<open>PNone\<close>, a boolean or the list of row strings.
\<close>

record entry =
  qid :: pyval
  sparql :: pyval
  expected :: pyval
  question :: pyval
  passed :: bool
  error :: "string option"
  actual :: pyval

record report =
  summary_total :: int
  summary_passed :: int
  results :: "entry list"

text \<open>
  The state the code reads and writes: the clock behind \<^verbatim>\<open>datetime.now\<close>, the lines of
  the run log, the number of calls made to the language model, and the reports written
  to \<^verbatim>\<open>validation_report.json\<close>, oldest first.
\<close>

record state =
  clock :: nat
  log :: "log_line list"
  llm_calls :: nat
  written_reports :: "report list"

text \<open>
  The libraries behind the code, as functions: the Turtle parser of rdflib (\<open>Inl\<close> is
  the text of the exception), its query engine (\<open>Inl\<close> is \<^verbatim>\<open>str(e)\<close> of the exception
  raised by \<^verbatim>\<open>g.query\<close>), the reasoner, the language model (call number, system prompt
  and user text; \<open>Inl\<close> is a failed call, \<open>Inr None\<close> a reply without content), and
  the questions stored in \<^verbatim>\<open>cqs_example.json\<close>.
\<close>

record 'g env =
  parse_turtle :: "string \<Rightarrow> string + 'g"
  run_query :: "'g \<Rightarrow> pyval \<Rightarrow> string + qresult"
  reasoner :: "'g \<Rightarrow> reasoner_outcome"
  llm :: "nat \<Rightarrow> string \<Rightarrow> string \<Rightarrow> string + string option"
  cqs_example :: "cq list"

subsection \<open>Rows\<close>

text \<open>
  \<open>_row_to_string\<close>: the values of \<^verbatim>\<open>asdict()\<close> joined by a pipe; otherwise the
  elements of the row joined by a pipe (a list gives its elements, a string its
  characters); a value that cannot be iterated raises inside the \<^verbatim>\<open>try\<close> and is
  written with \<^verbatim>\<open>str\<close>.
\<close>

fun row_to_string :: "row \<Rightarrow> string" where
  "row_to_string (HasAsdict d) = join ''|'' (map (\<lambda>kv. py_str (snd kv)) d)"
| "row_to_string (Plain (PList xs)) = join ''|'' (map py_str xs)"
| "row_to_string (Plain (PStr s)) = join ''|'' (map (\<lambda>c. [c]) s)"
| "row_to_string (Plain v) = py_str v"

subsection \<open>The structured log\<close>

text \<open>
  \<open>emit_log\<close> builds the payload with the current time and serialises it with
  \<^verbatim>\<open>json.dumps\<close> before logging; the \<^verbatim>\<open>try\<close> around it is commented out in the
  source, so a value that JSON cannot represent raises \<^verbatim>\<open>TypeError\<close> to the caller.
\<close>

definition emit_log :: "string \<Rightarrow> (string \<times> pyval) list \<Rightarrow> state \<Rightarrow> (exn + unit) \<times> state" where
  "emit_log stg flds s =
     (let t = clock s; s1 = s\<lparr>clock := t + 1\<rparr>
      in if list_all (\<lambda>kv. json_ok (snd kv)) flds
         then (Inr (), s1\<lparr>log := log s1 @ [JsonLine t stg flds]\<rparr>)
         else (Inl (TypeError ''Object is not JSON serializable''), s1))"

subsection \<open>Syntax and consistency\<close>

text \<open>
  \<open>validate_ttl\<close> takes the text of the file it is given; the \<^verbatim>\<open>path\<close> field of its two
  log records is left out. \<open>check_consistency\<close> catches the one exception that reports an
  inconsistent ontology; the class names come in the order the reasoner lists them.
\<close>

definition validate_ttl :: "'g env \<Rightarrow> string \<Rightarrow> state \<Rightarrow> (exn + bool) \<times> state" where
  "validate_ttl env ttl_text s =
     (case parse_turtle env ttl_text of
        Inr g \<Rightarrow>
          (case emit_log ''ttl_valid'' [] s of
             (Inl e, s1) \<Rightarrow> (Inl e, s1)
           | (Inr u, s1) \<Rightarrow> (Inr True, s1))
      | Inl msg \<Rightarrow>
          (case emit_log ''ttl_invalid'' [(''error'', PStr msg)] s of
             (Inl e, s1) \<Rightarrow> (Inl e, s1)
           | (Inr u, s1) \<Rightarrow> (Inr False, s1)))"

definition check_consistency :: "'g env \<Rightarrow> 'g \<Rightarrow> state \<Rightarrow> (exn + string list) \<times> state" where
  "check_consistency env ontology s =
     (case reasoner env ontology of
        InconsistentOntology \<Rightarrow>
          (case emit_log ''consistency_error'' [(''error'', PStr ''OwlReadyInconsistentOntologyError'')] s of
             (Inl e, s1) \<Rightarrow> (Inl e, s1)
           | (Inr u, s1) \<Rightarrow> (Inr [''The ontology is inconsistent''], s1))
      | ReasonerFailed msg \<Rightarrow> (Inl (ReasonerError msg), s)
      | Classified names \<Rightarrow>
          (let inconsistent_classes = join '', '' names
           in if inconsistent_classes \<noteq> []
              then (case emit_log ''consistency_issues'' [(''inconsistent_classes'', PStr inconsistent_classes)] s of
                      (Inl e, s1) \<Rightarrow> (Inl e, s1)
                    | (Inr u, s1) \<Rightarrow>
                        (Inr [''There are inconsistent classes in the ontology: '' @ inconsistent_classes], s1))
              else (case emit_log ''consistency_ok'' [] s of
                      (Inl e, s1) \<Rightarrow> (Inl e, s1)
                    | (Inr u, s1) \<Rightarrow> (Inr [], s1))))"

subsection \<open>One competency question\<close>

text \<open>
  \<open>validate_with_competency_question\<close>. The list \<open>results\<close> is passed by the caller and
  not used. The query runs inside \<^verbatim>\<open>try\<close>; the handler records the failure and logs it.
\<close>

definition validate_with_competency_question ::
  "'g env \<Rightarrow> 'g \<Rightarrow> cq \<Rightarrow> entry list \<Rightarrow> state \<Rightarrow> (exn + entry) \<times> state" where
  "validate_with_competency_question env g c rs s =
     (let qid0 = py_or (dict_get c ''id'' PNone) (py_or (dict_get c ''name'' PNone) (PStr ''unnamed''));
          sparql0 = dict_get c ''sparql'' (PStr []);
          expected0 = dict_get c ''expected'' PNone;
          question0 = dict_get c ''question'' (PStr []);
          entry0 = \<lparr>qid = qid0, sparql = sparql0, expected = expected0, question = question0,
                    passed = False, error = None, actual = PNone\<rparr>
      in case run_query env g sparql0 of
           Inl msg \<Rightarrow>
             (case emit_log ''competency_question_error''
                     [(''id'', qid0), (''error'', PStr msg), (''sparql'', sparql0)] s of
                (Inl e, s1) \<Rightarrow> (Inl e, s1)
              | (Inr u, s1) \<Rightarrow> (Inr (entry0\<lparr>passed := False, error := Some msg, actual := PNone\<rparr>), s1))
         | Inr (QBool actual_bool) \<Rightarrow>
             (Inr (entry0\<lparr>passed := (if expected0 = PNone \<and> actual_bool then True
                                       else eq_bool expected0 actual_bool),
                          actual := PBool actual_bool\<rparr>), s)
         | Inr (QRows res) \<Rightarrow>
             (let rows = map row_to_string res
              in (Inr (entry0\<lparr>actual := PList (map PStr rows),
                              passed :=
                                (if isinstance_int expected0 then eq_int expected0 (int (length rows))
                                 else if isinstance_list expected0
                                   then (case expected0 of
                                           PList xs \<Rightarrow> set rows = set (map py_str xs)
                                         | _ \<Rightarrow> False)
                                 else 0 < length rows)\<rparr>), s)))"

subsection \<open>The batch\<close>

text \<open>
  The loop of \<open>validate_with_competency_questions\<close> over the questions, with the local
  variables \<open>results\<close> and \<open>passed_count\<close> as accumulators.
\<close>

fun cq_loop ::
  "'g env \<Rightarrow> 'g \<Rightarrow> cq list \<Rightarrow> entry list \<Rightarrow> int \<Rightarrow> state \<Rightarrow> (exn + entry list \<times> int) \<times> state" where
  "cq_loop env g [] rs passed_count s = (Inr (rs, passed_count), s)"
| "cq_loop env g (c # cs) rs passed_count s =
     (case validate_with_competency_question env g c rs s of
        (Inl e, s1) \<Rightarrow> (Inl e, s1)
      | (Inr output, s1) \<Rightarrow>
          (case emit_log ''competency_question''
                  [(''id'', qid output), (''passed'', PBool (passed output)),
                   (''error'', (case error output of None \<Rightarrow> PNone | Some m \<Rightarrow> PStr m)),
                   (''expected'', expected output), (''actual'', actual output),
                   (''sparql'', sparql output), (''question'', question output)] s1 of
             (Inl e, s2) \<Rightarrow> (Inl e, s2)
           | (Inr u, s2) \<Rightarrow>
               cq_loop env g cs (rs @ [output])
                 (if passed output then passed_count + 1 else passed_count) s2))"

definition validate_with_competency_questions ::
  "'g env \<Rightarrow> string \<Rightarrow> cq list \<Rightarrow> state \<Rightarrow> (exn + bool \<times> report) \<times> state" where
  "validate_with_competency_questions env ttl_text competency_questions s =
     (case parse_turtle env ttl_text of
        Inl msg \<Rightarrow> (Inl (ParseError msg), s)
      | Inr g \<Rightarrow>
          (case emit_log ''CQ_validation_start''
                  [(''total_questions'', PInt (int (length competency_questions)))] s of
             (Inl e, s1) \<Rightarrow> (Inl e, s1)
           | (Inr u, s1) \<Rightarrow>
               (case cq_loop env g competency_questions [] 0 s1 of
                  (Inl e, s2) \<Rightarrow> (Inl e, s2)
                | (Inr (rs, passed_count), s2) \<Rightarrow>
                    (let total = int (length competency_questions)
                     in case emit_log ''CQ_validation_end''
                               [(''summary'', PList [PInt total, PInt passed_count])] s2 of
                          (Inl e, s3) \<Rightarrow> (Inl e, s3)
                        | (Inr u, s3) \<Rightarrow>
                            (Inr (passed_count = total,
                                  \<lparr>summary_total = total, summary_passed = passed_count,
                                   results = rs\<rparr>), s3)))))"

subsection \<open>Rendering and persisting a report\<close>

definition pretty_print_entry :: "entry \<Rightarrow> string list" where
  "pretty_print_entry r =
     (if passed r then []
      else [''- Question ID: '' @ py_str (qid r),
            ''  Question: '' @ py_str (question r)] @
           (case error r of
              Some m \<Rightarrow>
                (if m \<noteq> [] then [''  Error: '' @ m]
                 else [''  Expected: '' @ py_str (expected r), ''  Actual: '' @ py_str (actual r)])
            | None \<Rightarrow> [''  Expected: '' @ py_str (expected r), ''  Actual: '' @ py_str (actual r)]))"

definition pretty_print_errors :: "report \<Rightarrow> string" where
  "pretty_print_errors rep =
     join [CHR 0x0A]
       ([''Competency Questions Validation Report:'',
         ''  Passed '' @ str_of_int (summary_passed rep) @ '' out of '' @
           str_of_int (summary_total rep) @ '' questions.''] @
        concat (map pretty_print_entry (results rep)))"

definition json_ok_entry :: "entry \<Rightarrow> bool" where
  "json_ok_entry r =
     (json_ok (qid r) \<and> json_ok (sparql r) \<and> json_ok (expected r) \<and> json_ok (question r) \<and>
      json_ok (actual r))"

text \<open>\<^verbatim>\<open>os.path.join\<close> of a directory and a relative file name.\<close>

definition path_join :: "string \<Rightarrow> string \<Rightarrow> string" where
  "path_join a b = (if a = [] then b else if last a = CHR ''/'' then a @ b else a @ ''/'' @ b)"

text \<open>
  \<open>log_report\<close> writes the report as JSON inside \<^verbatim>\<open>try\<close> (a failure is logged, not
  raised) and returns the rendered text.
\<close>

definition log_report :: "report \<Rightarrow> string \<Rightarrow> state \<Rightarrow> string \<times> state" where
  "log_report rep out s =
     (let report_path = path_join out ''validation_report.json''
      in (pretty_print_errors rep,
          if list_all json_ok_entry (results rep)
          then s\<lparr>written_reports := written_reports s @ [rep],
                 log := log s @ [TextLine (''Wrote report to '' @ report_path)]\<rparr>
          else s\<lparr>log := log s @ [TextLine (''Failed to write report to '' @ report_path)]\<rparr>))"

subsection \<open>The command line of the validator\<close>

text \<open>
  \<open>main\<close> of validator.py on the text of the Turtle file and the loaded questions: the
  result of \<open>validate_ttl\<close> is not looked at, and the file is parsed again for the
  consistency check, outside any \<^verbatim>\<open>try\<close>.
\<close>

definition validator_main :: "'g env \<Rightarrow> string \<Rightarrow> cq list \<Rightarrow> state \<Rightarrow> (exn + unit) \<times> state" where
  "validator_main env ttl_text cqs s =
     (case validate_ttl env ttl_text s of
        (Inl e, s1) \<Rightarrow> (Inl e, s1)
      | (Inr ok, s1) \<Rightarrow>
          (case parse_turtle env ttl_text of
             Inl msg \<Rightarrow> (Inl (ParseError msg), s1)
           | Inr g \<Rightarrow>
               (case check_consistency env g s1 of
                  (Inl e, s2) \<Rightarrow> (Inl e, s2)
                | (Inr issues, s2) \<Rightarrow>
                    (case validate_with_competency_questions env ttl_text cqs s2 of
                       (Inl e, s3) \<Rightarrow> (Inl e, s3)
                     | (Inr r, s3) \<Rightarrow> (Inr (), s3)))))"

section \<open>Generation and correction (generate\_ontology.py)\<close>

text \<open>
  Files are not modelled: a function of the source that reads a file takes its text, and
  \<open>save_outputs\<close>, which only writes the two files that are validated next, is left out.
\<close>

definition prefix_part :: string where
  "prefix_part =
     ''# Prefixes'' @ [CHR 0x0A] @
     ''@prefix : <http://example.org/highway_code#> .'' @ [CHR 0x0A] @
     ''@prefix rdf: <http://www.w3.org/1999/02/22-rdf-syntax-ns#> .'' @ [CHR 0x0A] @
     ''@prefix rdfs: <http://www.w3.org/2000/01/rdf-schema#> .'' @ [CHR 0x0A] @
     ''@prefix owl: <http://www.w3.org/2002/07/owl#> .'' @ [CHR 0x0A] @
     ''@prefix xsd: <http://www.w3.org/2001/XMLSchema#> .'' @ [CHR 0x0A]"

definition user_preamble :: string where
  "user_preamble =
     ''Please follow the system step-by-step instructions exactly. '' @
     ''Given the following legal text, produce two outputs in this order:'' @ [CHR 0x0A] @
     ''1) A JSON array of extracted sentence-level objects as described in the system prompt.'' @ [CHR 0x0A] @
     ''3) A section `## OWL` containing the OWL representation in Turtle (ttl).'' @ [CHR 0x0A, CHR 0x0A] @
     ''Legal text:'' @ [CHR 0x0A, CHR 0x0A]"

text \<open>\<open>call_llm\<close>: one request to the language model; a failed request raises.\<close>

definition call_llm :: "'g env \<Rightarrow> string \<Rightarrow> string \<Rightarrow> state \<Rightarrow> (string + string option) \<times> state" where
  "call_llm env system_prompt text s =
     (llm env (llm_calls s) system_prompt (user_preamble @ text), s\<lparr>llm_calls := llm_calls s + 1\<rparr>)"

subsection \<open>Extracting the Turtle block\<close>

text \<open>\<^verbatim>\<open>str.strip()\<close>: the whitespace below 128 is 9 to 13, 28 to 31 and the space.\<close>

definition is_space :: "char \<Rightarrow> bool" where
  "is_space c = (let n = (of_char c :: nat) in (9 \<le> n \<and> n \<le> 13) \<or> (28 \<le> n \<and> n \<le> 32))"

definition strip :: "string \<Rightarrow> string" where
  "strip s = rev (dropWhile is_space (rev (dropWhile is_space s)))"

text \<open>The text after the first occurrence of \<open>p\<close>, as \<^verbatim>\<open>s.split(p, 1)[1]\<close>.\<close>

fun after_first :: "string \<Rightarrow> string \<Rightarrow> string option" where
  "after_first p [] = (if p = [] then Some [] else None)"
| "after_first p (c # cs) =
     (if take (length p) (c # cs) = p then Some (drop (length p) (c # cs)) else after_first p cs)"

definition lower :: "char \<Rightarrow> char" where
  "lower c = (let n = (of_char c :: nat) in if 65 \<le> n \<and> n \<le> 90 then char_of (n + 32) else c)"

text \<open>The opening fence at the head of \<open>s\<close>, letters in any case: what follows it.\<close>

definition after_fence :: "string \<Rightarrow> string option" where
  "after_fence s =
     (if map lower (take 7 s) = ''```ttl'' @ [CHR 0x0A] then Some (drop 7 s)
      else if map lower (take 10 s) = ''```turtle'' @ [CHR 0x0A] then Some (drop 10 s)
      else None)"

text \<open>
  The lazy group \<^verbatim>\<open>([\s\S]+?)\<close> followed by a newline and the closing fence: the
  shortest non-empty body; \<open>acc\<close> holds the body read so far, reversed.
\<close>

fun lazy_body :: "string \<Rightarrow> string \<Rightarrow> string option" where
  "lazy_body acc [] = None"
| "lazy_body acc (c # cs) =
     (if take 4 cs = [CHR 0x0A] @ ''```'' then Some (rev (c # acc)) else lazy_body (c # acc) cs)"

text \<open>\<^verbatim>\<open>re.search\<close>: the leftmost position where the whole pattern matches.\<close>

fun search_block :: "string \<Rightarrow> string option" where
  "search_block [] = None"
| "search_block (c # cs) =
     (case after_fence (c # cs) of
        Some r \<Rightarrow> (case lazy_body [] r of Some b \<Rightarrow> Some b | None \<Rightarrow> search_block cs)
      | None \<Rightarrow> search_block cs)"

definition split_response :: "string \<Rightarrow> string" where
  "split_response content =
     (case after_first ''## OWL'' content of
        Some right \<Rightarrow> (case search_block (strip right) of Some b \<Rightarrow> strip b | None \<Rightarrow> [])
      | None \<Rightarrow> [])"

definition ttl_of_response :: "string \<Rightarrow> string" where
  "ttl_of_response content =
     prefix_part @ [CHR 0x0A, CHR 0x0A] @ ''# Generated code'' @ [CHR 0x0A, CHR 0x0A] @
     split_response content"

subsection \<open>One validation cycle\<close>

text \<open>
  \<open>validate_output\<close> returns \<open>None\<close> when the document is accepted and the message for
  the next correction otherwise. Only \<open>validate_ttl\<close> and the competency questions run
  here; the consistency check is not called from this file.
\<close>

definition validate_output :: "'g env \<Rightarrow> string \<Rightarrow> string \<Rightarrow> state \<Rightarrow> (exn + string option) \<times> state" where
  "validate_output env ttl_text dest s =
     (case validate_ttl env ttl_text s of
        (Inl e, s1) \<Rightarrow> (Inl e, s1)
      | (Inr ok, s1) \<Rightarrow>
          if \<not> ok then (Inr (Some ''Failed to load Turtle file.''), s1)
          else (case validate_with_competency_questions env ttl_text (cqs_example env) s1 of
                  (Inl e, s2) \<Rightarrow> (Inl e, s2)
                | (Inr (success, cq_validation), s2) \<Rightarrow>
                    if \<not> success
                    then (case log_report cq_validation dest s2 of
                            (error_msg, s3) \<Rightarrow> (Inr (Some error_msg), s3))
                    else (Inr None, s2)))"

subsection \<open>The correction loop\<close>

definition fix_system_prompt :: string where
  "fix_system_prompt =
     [CHR 0x0A] @
     ''Your task is to fix the provided OWL Turtle code based on the following error message from a validator:''"

definition fix_user_prompt :: "string \<Rightarrow> string \<Rightarrow> string" where
  "fix_user_prompt content error_msg =
     [CHR 0x0A] @ ''Here is the original Turtle code:'' @ [CHR 0x0A] @
     content @ [CHR 0x0A] @
     ''The Turtle code has the following issues:'' @ [CHR 0x0A] @
     error_msg @ [CHR 0x0A] @
     ''Please provide a corrected version of the OWL Turtle code that resolves these issues.'' @
     [CHR 0x0A]"

text \<open>
  \<open>llm_fix_and_validate\<close>: ask for a fix, validate it, and call itself again while the
  validation still reports a message and \<open>step < max_steps\<close>. A failed request ends the
  program with status 1; a reply without content raises in \<open>split_response\<close>.
\<close>

function llm_fix_and_validate ::
  "'g env \<Rightarrow> string \<Rightarrow> string \<Rightarrow> string \<Rightarrow> int \<Rightarrow> int \<Rightarrow> state \<Rightarrow> (exn + unit) \<times> state" where
  "llm_fix_and_validate env content dest error_msg step max_steps s =
     (case call_llm env fix_system_prompt (fix_user_prompt content error_msg) s of
        (Inl failure, s1) \<Rightarrow> (Inl (SystemExit 1), s1)
      | (Inr None, s1) \<Rightarrow> (Inl (TypeError ''argument of type NoneType is not iterable''), s1)
      | (Inr (Some fixed_content), s1) \<Rightarrow>
          (case validate_output env (ttl_of_response fixed_content) dest s1 of
             (Inl e, s2) \<Rightarrow> (Inl e, s2)
           | (Inr None, s2) \<Rightarrow> (Inr (), s2)
           | (Inr (Some error_msg2), s2) \<Rightarrow>
               if error_msg2 \<noteq> [] \<and> step < max_steps
               then llm_fix_and_validate env fixed_content dest error_msg2 (step + 1) max_steps s2
               else (Inr (), s2)))"
  by pat_completeness auto
termination
  by (relation "measure (\<lambda>(env, content, dest, error_msg, step, max_steps, s). nat (max_steps - step))") auto

declare llm_fix_and_validate.simps [simp del]





text \<open>The stages that have written to the log.\<close>

fun stage_of :: "log_line \<Rightarrow> string" where
  "stage_of (JsonLine t stg flds) = stg"
| "stage_of (TextLine m) = []"

definition stages :: "state \<Rightarrow> string list" where
  "stages s = map stage_of (log s)"

section \<open>Concrete runs\<close>

text \<open>
  A small world to run the code in: one document that does not parse, a query engine
  that knows five queries and rejects every other text as malformed, a reasoner that
  finds nothing, and a language model whose replies hold no Turtle block.
\<close>

definition init_state :: state where
  "init_state = \<lparr>clock = 0, log = [], llm_calls = 0, written_reports = []\<rparr>"

definition demo_parse :: "string \<Rightarrow> string + unit" where
  "demo_parse t = (if t = ''<s> <p>'' then Inl ''Bad syntax at line 1'' else Inr ())"

definition demo_query :: "unit \<Rightarrow> pyval \<Rightarrow> string + qresult" where
  "demo_query g q =
     (if q = PStr ''ASK {?s ?p ?o}'' then Inr (QBool True)
      else if q = PStr ''ASK {?s a :X}'' then Inr (QBool False)
      else if q = PStr ''SELECT ?x {?x a :C}''
        then Inr (QRows [HasAsdict [(''x'', PStr ''a'')], HasAsdict [(''x'', PStr ''b'')],
                         HasAsdict [(''x'', PStr ''a'')]])
      else if q = PStr ''SELECT ?x {?x a :D}'' then Inr (QRows [HasAsdict [(''x'', PStr ''d'')]])
      else if q = PStr ''SELECT ?x {?x a :E}'' then Inr (QRows [])
      else Inl ''Expected SelectQuery'')"

definition cq_expects_x :: cq where
  "cq_expects_x = [''id'' \<mapsto> PStr ''q1'', ''sparql'' \<mapsto> PStr ''ASK {?s a :X}'', ''expected'' \<mapsto> PBool True]"

definition demo_cqs :: "cq list" where
  "demo_cqs = [cq_expects_x]"

definition demo_env :: "unit env" where
  "demo_env =
     \<lparr>parse_turtle = demo_parse, run_query = demo_query,
      reasoner = (\<lambda>g. Classified []),
      llm = (\<lambda>n sp txt. Inr (Some ''I cannot help with that.'')),
      cqs_example = demo_cqs\<rparr>"

text \<open>The same world with a reasoner that cannot start.\<close>

definition no_java_env :: "unit env" where
  "no_java_env = demo_env\<lparr>reasoner := (\<lambda>g. ReasonerFailed ''Java error message is:'')\<rparr>"

text \<open>The same world with a reasoner that finds two unsatisfiable classes.\<close>

definition unsat_env :: "unit env" where
  "unsat_env = demo_env\<lparr>reasoner := (\<lambda>g. Classified [''Dog'', ''Cat''])\<rparr>"

text \<open>Questions used below.\<close>

definition cq_ask_unset :: cq where
  "cq_ask_unset = [''id'' \<mapsto> PStr ''a1'', ''sparql'' \<mapsto> PStr ''ASK {?s ?p ?o}'']"


definition cq_count3 :: cq where
  "cq_count3 = [''id'' \<mapsto> PStr ''s1'', ''sparql'' \<mapsto> PStr ''SELECT ?x {?x a :C}'', ''expected'' \<mapsto> PInt 3]"

definition cq_set_ab :: cq where
  "cq_set_ab = [''id'' \<mapsto> PStr ''s2'', ''sparql'' \<mapsto> PStr ''SELECT ?x {?x a :C}'',
                ''expected'' \<mapsto> PList [PStr ''b'', PStr ''a'']]"

definition cq_rows_true :: cq where
  "cq_rows_true = [''id'' \<mapsto> PStr ''s3'', ''sparql'' \<mapsto> PStr ''SELECT ?x {?x a :D}'', ''expected'' \<mapsto> PBool True]"

definition cq_malformed :: cq where
  "cq_malformed = [''id'' \<mapsto> PStr ''m1'', ''sparql'' \<mapsto> PStr ''SELEC ?x'']"

text \<open>
  A malformed query whose expected answer is a date written without quotes, followed by
  a good question.
\<close>

definition cq_malformed_date :: cq where
  "cq_malformed_date =
     [''id'' \<mapsto> PStr ''m2'', ''sparql'' \<mapsto> PStr ''SELEC ?d'', ''expected'' \<mapsto> PList [PDate 2024 1 1]]"

text \<open>A question whose query field is itself a date.\<close>

definition cq_date_query :: cq where
  "cq_date_query = [''id'' \<mapsto> PStr ''m3'', ''sparql'' \<mapsto> PDate 2024 1 1]"


section \<open>Properties of one competency question\<close>




text \<open>
  Claim C3. When the query returns rows and \<open>expected\<close> is an integer, the question passes
  exactly when the number of rows returned equals it: every row counts, also one whose
  string occurs already.
\<close>

theorem rows_integer_expected:
  assumes "run_query env g (dict_get c ''sparql'' (PStr [])) = Inr (QRows res)"
    and "dict_get c ''expected'' PNone = PInt n"
  shows "\<exists>e. validate_with_competency_question env g c rs s = (Inr e, s) \<and>
             actual e = PList (map (\<lambda>r. PStr (row_to_string r)) res) \<and>
             (passed e \<longleftrightarrow> int (length res) = n)"
  using assms by (auto simp: validate_with_competency_question_def Let_def)

theorem rows_integer_expected_witness:
  "run_query demo_env () (dict_get cq_count3 ''sparql'' (PStr [])) =
     Inr (QRows [HasAsdict [(''x'', PStr ''a'')], HasAsdict [(''x'', PStr ''b'')], HasAsdict [(''x'', PStr ''a'')]]) \<and>
   dict_get cq_count3 ''expected'' PNone = PInt 3 \<and>
   (\<exists>e. validate_with_competency_question demo_env () cq_count3 [] init_state = (Inr e, init_state) \<and>
        actual e = PList [PStr ''a'', PStr ''b'', PStr ''a''] \<and> passed e)"
proof -
  have q: "run_query demo_env () (dict_get cq_count3 ''sparql'' (PStr [])) =
     Inr (QRows [HasAsdict [(''x'', PStr ''a'')], HasAsdict [(''x'', PStr ''b'')], HasAsdict [(''x'', PStr ''a'')]])"
    by (simp add: demo_env_def demo_query_def cq_count3_def dict_get_def)
  have x: "dict_get cq_count3 ''expected'' PNone = PInt 3"
    by (simp add: cq_count3_def dict_get_def)
  from rows_integer_expected [OF q x, of "[]" init_state] x q show ?thesis by auto
qed

text \<open>
  Claim C4. When the query returns rows and \<open>expected\<close> is a list, the question passes
  exactly when the set of row strings equals the set of the strings of the expected
  values: neither order nor repetition on either side matters.
\<close>

theorem rows_list_expected:
  assumes "run_query env g (dict_get c ''sparql'' (PStr [])) = Inr (QRows res)"
    and "dict_get c ''expected'' PNone = PList xs"
  shows "\<exists>e. validate_with_competency_question env g c rs s = (Inr e, s) \<and>
             (passed e \<longleftrightarrow> set (map row_to_string res) = set (map py_str xs))"
  using assms by (auto simp: validate_with_competency_question_def Let_def)

theorem rows_list_expected_witness:
  "run_query demo_env () (dict_get cq_set_ab ''sparql'' (PStr [])) =
     Inr (QRows [HasAsdict [(''x'', PStr ''a'')], HasAsdict [(''x'', PStr ''b'')], HasAsdict [(''x'', PStr ''a'')]]) \<and>
   dict_get cq_set_ab ''expected'' PNone = PList [PStr ''b'', PStr ''a''] \<and>
   (\<exists>e. validate_with_competency_question demo_env () cq_set_ab [] init_state = (Inr e, init_state) \<and>
        passed e)"
proof -
  have q: "run_query demo_env () (dict_get cq_set_ab ''sparql'' (PStr [])) =
     Inr (QRows [HasAsdict [(''x'', PStr ''a'')], HasAsdict [(''x'', PStr ''b'')], HasAsdict [(''x'', PStr ''a'')]])"
    by (simp add: demo_env_def demo_query_def cq_set_ab_def dict_get_def)
  have x: "dict_get cq_set_ab ''expected'' PNone = PList [PStr ''b'', PStr ''a'']"
    by (simp add: cq_set_ab_def dict_get_def)
  from rows_list_expected [OF q x, of "[]" init_state] x q show ?thesis by auto
qed

text \<open>
  Claim C10. When the query returns rows and \<open>expected\<close> is a boolean, the integer branch
  is taken: \<open>True\<close> passes exactly on one row, \<open>False\<close> exactly on no row.
\<close>

theorem rows_boolean_expected:
  assumes "run_query env g (dict_get c ''sparql'' (PStr [])) = Inr (QRows res)"
    and "dict_get c ''expected'' PNone = PBool x"
  shows "\<exists>e. validate_with_competency_question env g c rs s = (Inr e, s) \<and>
             (passed e \<longleftrightarrow> length res = (if x then 1 else 0))"
  using assms by (auto simp: validate_with_competency_question_def Let_def)

theorem rows_boolean_expected_witness:
  "run_query demo_env () (dict_get cq_rows_true ''sparql'' (PStr [])) =
     Inr (QRows [HasAsdict [(''x'', PStr ''d'')]]) \<and>
   dict_get cq_rows_true ''expected'' PNone = PBool True \<and>
   (\<exists>e. validate_with_competency_question demo_env () cq_rows_true [] init_state = (Inr e, init_state) \<and>
        passed e)"
proof -
  have q: "run_query demo_env () (dict_get cq_rows_true ''sparql'' (PStr [])) =
     Inr (QRows [HasAsdict [(''x'', PStr ''d'')]])"
    by (simp add: demo_env_def demo_query_def cq_rows_true_def dict_get_def)
  have x: "dict_get cq_rows_true ''expected'' PNone = PBool True"
    by (simp add: cq_rows_true_def dict_get_def)
  from rows_boolean_expected [OF q x, of "[]" init_state] x q show ?thesis by auto
qed

section \<open>Properties of the batch\<close>





lemma cq_loop_result:
  "cq_loop env g cs rs pc s = (Inr (rs', pc'), s') \<Longrightarrow>
   \<exists>new. rs' = rs @ new \<and> length new = length cs \<and>
         pc' = pc + int (length (filter passed new))"
proof (induction cs arbitrary: rs pc s)
  case Nil
  then show ?case by simp
next
  case (Cons c cs)
  from Cons.prems obtain entry1 s1 s2 where
    rec: "cq_loop env g cs (rs @ [entry1]) (if passed entry1 then pc + 1 else pc) s2 =
          (Inr (rs', pc'), s')"
    by (auto split: sum.splits prod.splits)
  from Cons.IH [OF rec] obtain new where
    n: "rs' = (rs @ [entry1]) @ new" "length new = length cs"
       "pc' = (if passed entry1 then pc + 1 else pc) + int (length (filter passed new))"
    by blast
  show ?case
  proof (intro exI conjI)
    show "rs' = rs @ (entry1 # new)" using n by simp
    show "length (entry1 # new) = length (c # cs)" using n by simp
    show "pc' = pc + int (length (filter passed (entry1 # new)))" using n by simp
  qed
qed

text \<open>
  Claim C5. In every report the evaluator returns, \<open>summary.passed\<close> is the number of
  results that passed, \<open>summary.total\<close> is the number of results and of questions, so
  \<open>0 \<le> passed \<le> total\<close>; the success flag holds exactly when the two are equal, and a
  run without questions succeeds.
\<close>

theorem report_summary_invariant:
  assumes "validate_with_competency_questions env ttl_text cqs s = (Inr (ok, rep), s')"
  shows "summary_passed rep = int (length (filter passed (results rep))) \<and>
         summary_total rep = int (length (results rep)) \<and>
         length (results rep) = length cqs \<and>
         0 \<le> summary_passed rep \<and> summary_passed rep \<le> summary_total rep \<and>
         (ok \<longleftrightarrow> summary_passed rep = summary_total rep) \<and>
         (cqs = [] \<longrightarrow> ok)"
proof -
  from assms obtain g s1 s2 rs pc where
    loop: "cq_loop env g cqs [] 0 s1 = (Inr (rs, pc), s2)" and
    ok: "ok = (pc = int (length cqs))" and
    rep: "rep = \<lparr>summary_total = int (length cqs), summary_passed = pc, results = rs\<rparr>"
    by (auto simp: validate_with_competency_questions_def Let_def split: sum.splits prod.splits)
  from cq_loop_result [OF loop] have
    n: "length rs = length cqs" "pc = int (length (filter passed rs))"
    by auto
  have le: "length (filter passed rs) \<le> length rs" by simp
  show ?thesis using n le ok rep by auto
qed

theorem report_summary_invariant_witness:
  "\<exists>rep s'. validate_with_competency_questions demo_env ''doc''
                [cq_malformed, cq_ask_unset, cq_count3] init_state = (Inr (False, rep), s') \<and>
             summary_total rep = 3 \<and> summary_passed rep = 2 \<and>
             map passed (results rep) = [False, True, True]"
proof -
  let ?run = "validate_with_competency_questions demo_env ''doc''
                [cq_malformed, cq_ask_unset, cq_count3] init_state"
  let ?rep = "\<lparr>summary_total = 3, summary_passed = 2,
          results =
            [\<lparr>qid = PStr ''m1'', sparql = PStr ''SELEC ?x'',
                expected = PNone, question = PStr [], passed = False,
                error = Some ''Expected SelectQuery'', actual = PNone\<rparr>,
             \<lparr>qid = PStr ''a1'', sparql = PStr ''ASK {?s ?p ?o}'',
                expected = PNone, question = PStr [], passed = True,
                error = None, actual = PBool True\<rparr>,
             \<lparr>qid = PStr ''s1'', sparql = PStr ''SELECT ?x {?x a :C}'',
                expected = PInt 3, question = PStr [], passed = True,
                error = None,
                actual = PList [PStr ''a'', PStr ''b'', PStr ''a'']\<rparr>]\<rparr>"
  have "fst ?run = Inr (False, ?rep)"
    by (simp add: validate_with_competency_questions_def validate_with_competency_question_def
          demo_env_def demo_parse_def demo_query_def cq_malformed_def cq_ask_unset_def
          cq_count3_def emit_log_def dict_get_def py_or_def Let_def init_state_def)
  then have h: "?run = (Inr (False, ?rep), snd ?run)"
    by (metis prod.collapse)
  from report_summary_invariant [OF h] h show ?thesis
    by (intro exI [of _ ?rep] exI [of _ "snd ?run"]) simp
qed

section \<open>Properties of the correction loop\<close>

text \<open>Validation makes no request to the language model.\<close>

lemma emit_log_llm_calls: "llm_calls (snd (emit_log stg flds s)) = llm_calls s"
  by (simp add: emit_log_def Let_def)

lemma question_llm_calls:
  "llm_calls (snd (validate_with_competency_question env g c rs s)) = llm_calls s"
  by (cases "run_query env g (dict_get c ''sparql'' (PStr []))")
     (auto simp: validate_with_competency_question_def emit_log_def Let_def
           split: qresult.splits)

lemma cq_loop_llm_calls: "llm_calls (snd (cq_loop env g cs rs pc s)) = llm_calls s"
proof (induction cs arbitrary: rs pc s)
  case Nil
  show ?case by simp
next
  case (Cons c cs)
  obtain r1 s1 where a: "validate_with_competency_question env g c rs s = (r1, s1)"
    by force
  have s1: "llm_calls s1 = llm_calls s"
    using question_llm_calls [of env g c rs s] a by simp
  show ?case
  proof (cases r1)
    case (Inl e)
    with a s1 show ?thesis by simp
  next
    case (Inr entry1)
    let ?f = "[(''id'', qid entry1), (''passed'', PBool (passed entry1)),
               (''error'', (case error entry1 of None \<Rightarrow> PNone | Some m \<Rightarrow> PStr m)),
               (''expected'', expected entry1), (''actual'', actual entry1),
               (''sparql'', sparql entry1), (''question'', question entry1)]"
    obtain u1 t1 where c1: "emit_log ''competency_question'' ?f s1 = (u1, t1)"
      by force
    have t1: "llm_calls t1 = llm_calls s"
      using emit_log_llm_calls [of "''competency_question''" ?f s1] c1 s1 by simp
    show ?thesis
    proof (cases u1)
      case (Inl e)
      with a Inr c1 t1 show ?thesis by simp
    next
      case (Inr v)
      with a \<open>r1 = Inr entry1\<close> c1 t1 Cons.IH [of "rs @ [entry1]" _ t1]
      show ?thesis by simp
    qed
  qed
qed

lemma evaluator_llm_calls:
  "llm_calls (snd (validate_with_competency_questions env ttl_text cqs s)) = llm_calls s"
proof (cases "parse_turtle env ttl_text")
  case (Inl msg)
  then show ?thesis by (simp add: validate_with_competency_questions_def)
next
  case (Inr g)
  let ?f = "[(''total_questions'', PInt (int (length cqs)))]"
  obtain u1 t1 where c1: "emit_log ''CQ_validation_start'' ?f s = (u1, t1)" by force
  have t1: "llm_calls t1 = llm_calls s"
    using emit_log_llm_calls [of "''CQ_validation_start''" ?f s] c1 by simp
  obtain r1 w1 where d1: "cq_loop env g cqs [] 0 t1 = (r1, w1)" by force
  have w1: "llm_calls w1 = llm_calls s"
    using cq_loop_llm_calls [of env g cqs "[]" 0 t1] d1 t1 by simp
  show ?thesis
    using Inr c1 d1 w1 t1
    by (auto simp: validate_with_competency_questions_def emit_log_def Let_def
             split: sum.splits prod.splits)
qed

lemma validate_ttl_llm_calls: "llm_calls (snd (validate_ttl env ttl_text s)) = llm_calls s"
  by (auto simp: validate_ttl_def emit_log_def Let_def split: sum.splits)

lemma log_report_llm_calls: "llm_calls (snd (log_report rep out s)) = llm_calls s"
  by (simp add: log_report_def Let_def)

lemma validate_output_llm_calls:
  "llm_calls (snd (validate_output env ttl_text d s)) = llm_calls s"
proof -
  obtain r1 s1 where a: "validate_ttl env ttl_text s = (r1, s1)" by force
  have s1: "llm_calls s1 = llm_calls s"
    using validate_ttl_llm_calls [of env ttl_text s] a by simp
  obtain r2 s2 where b: "validate_with_competency_questions env ttl_text (cqs_example env) s1 = (r2, s2)"
    by force
  have s2: "llm_calls s2 = llm_calls s"
    using evaluator_llm_calls [of env ttl_text "cqs_example env" s1] b s1 by simp
  show ?thesis
    using a b s1 s2
    by (auto simp: validate_output_def log_report_def Let_def split: sum.splits prod.splits)
qed

text \<open>The correction loop on its own: at most \<open>max_steps - step + 1\<close> requests.\<close>

lemma fix_requests_bound:
  "llm_calls (snd (llm_fix_and_validate env content d msg step max_steps s))
     \<le> llm_calls s + nat (max_steps - step) + 1"
proof (induction env content d msg step max_steps s rule: llm_fix_and_validate.induct)
  case (1 env content d msg step max_steps s)
  obtain r1 s1 where a: "call_llm env fix_system_prompt (fix_user_prompt content msg) s = (r1, s1)"
    by force
  have s1: "llm_calls s1 = llm_calls s + 1"
    using a by (auto simp: call_llm_def)
  show ?case
  proof (cases r1)
    case (Inl failure)
    with a s1 show ?thesis by (subst llm_fix_and_validate.simps) simp
  next
    case (Inr reply)
    show ?thesis
    proof (cases reply)
      case None
      with a s1 Inr show ?thesis by (subst llm_fix_and_validate.simps) simp
    next
      case (Some fixed_content)
      obtain r2 s2 where b: "validate_output env (ttl_of_response fixed_content) d s1 = (r2, s2)"
        by force
      have s2: "llm_calls s2 = llm_calls s + 1"
        using validate_output_llm_calls [of env "ttl_of_response fixed_content" d s1] b s1 by simp
      show ?thesis
      proof (cases r2)
        case (Inl e)
        with a s2 b Some \<open>r1 = Inr reply\<close> show ?thesis
          by (subst llm_fix_and_validate.simps) simp
      next
        case (Inr m)
        show ?thesis
        proof (cases m)
          case None
          with a s2 b Some \<open>r1 = Inr reply\<close> Inr show ?thesis
            by (subst llm_fix_and_validate.simps) simp
        next
          case (Some msg2)
          show ?thesis
          proof (cases "msg2 \<noteq> [] \<and> step < max_steps")
            case True
            have "llm_calls (snd (llm_fix_and_validate env fixed_content d msg2 (step + 1) max_steps s2))
                    \<le> llm_calls s2 + nat (max_steps - (step + 1)) + 1"
              using "1.IH" [OF a [symmetric] \<open>r1 = Inr reply\<close> \<open>reply = Some fixed_content\<close>
                      b [symmetric] Inr Some] True
              by simp
            moreover have "nat (max_steps - (step + 1)) + 1 = nat (max_steps - step)"
              using True by arith
            ultimately show ?thesis
              using a s2 b \<open>reply = Some fixed_content\<close> \<open>r1 = Inr reply\<close> Inr Some True
              by (subst llm_fix_and_validate.simps) simp
          next
            case False
            with a s2 b \<open>reply = Some fixed_content\<close> \<open>r1 = Inr reply\<close> Inr Some show ?thesis
              by (subst llm_fix_and_validate.simps) auto
          qed
        qed
      qed
    qed
  qed
qed












section \<open>When the evaluator returns\<close>

lemma json_ok_strings: "list_all json_ok (map (PStr \<circ> f) xs)"
  by (induction xs) simp_all

lemma json_ok_dict_get: "\<forall>v\<in>ran c. json_ok v \<Longrightarrow> json_ok dflt \<Longrightarrow> json_ok (dict_get c k dflt)"
  by (auto simp: dict_get_def ran_def split: option.splits)

lemma json_ok_py_or: "json_ok a \<Longrightarrow> json_ok b \<Longrightarrow> json_ok (py_or a b)"
  by (simp add: py_or_def)

lemma question_returns:
  assumes "\<forall>v\<in>ran c. json_ok v"
  shows "\<exists>e s'. validate_with_competency_question env g c rs s = (Inr e, s') \<and> json_ok_entry e"
proof -
  have i: "json_ok (py_or (dict_get c ''id'' PNone) (py_or (dict_get c ''name'' PNone) (PStr ''unnamed'')))"
    using assms by (intro json_ok_py_or json_ok_dict_get) simp_all
  have q: "json_ok (dict_get c ''sparql'' (PStr []))" "json_ok (dict_get c ''expected'' PNone)"
          "json_ok (dict_get c ''question'' (PStr []))"
    using assms by (simp_all add: json_ok_dict_get)
  show ?thesis
  proof (cases "run_query env g (dict_get c ''sparql'' (PStr []))")
    case (Inl msg)
    with i q show ?thesis
      by (simp add: validate_with_competency_question_def emit_log_def json_ok_entry_def Let_def)
  next
    case (Inr res)
    with i q show ?thesis
      by (cases res)
         (simp_all add: validate_with_competency_question_def json_ok_entry_def json_ok_strings Let_def)
  qed
qed

lemma cq_loop_returns:
  "\<forall>c\<in>set cs. \<forall>v\<in>ran c. json_ok v \<Longrightarrow> \<exists>r s'. cq_loop env g cs rs pc s = (Inr r, s')"
proof (induction cs arbitrary: rs pc s)
  case Nil
  show ?case by simp
next
  case (Cons c cs)
  from Cons.prems have c: "\<forall>v\<in>ran c. json_ok v" by simp
  from question_returns [OF c, of env g rs s] obtain e s1 where
    a: "validate_with_competency_question env g c rs s = (Inr e, s1)" and e: "json_ok_entry e"
    by blast
  let ?f = "[(''id'', qid e), (''passed'', PBool (passed e)),
             (''error'', (case error e of None \<Rightarrow> PNone | Some m \<Rightarrow> PStr m)),
             (''expected'', expected e), (''actual'', actual e),
             (''sparql'', sparql e), (''question'', question e)]"
  have ok: "list_all (\<lambda>kv. json_ok (snd kv)) ?f"
    using e by (simp add: json_ok_entry_def split: option.splits)
  obtain s2 where b: "emit_log ''competency_question'' ?f s1 = (Inr (), s2)"
    using ok by (simp add: emit_log_def Let_def)
  from Cons.prems have "\<forall>c\<in>set cs. \<forall>v\<in>ran c. json_ok v" by simp
  from Cons.IH [OF this, of "rs @ [e]" "if passed e then pc + 1 else pc" s2]
  show ?case using a b by simp
qed

text \<open>
  The evaluator returns a report whenever the document parses and every field of every
  question can be written as JSON.
\<close>

lemma evaluator_returns:
  assumes "parse_turtle env ttl_text = Inr g"
    and "\<forall>c\<in>set cqs. \<forall>v\<in>ran c. json_ok v"
  shows "\<exists>ok rep s'. validate_with_competency_questions env ttl_text cqs s = (Inr (ok, rep), s')"
proof -
  let ?f = "[(''total_questions'', PInt (int (length cqs)))]"
  obtain s1 where a: "emit_log ''CQ_validation_start'' ?f s = (Inr (), s1)"
    by (simp add: emit_log_def Let_def)
  from cq_loop_returns [OF assms(2), of env g "[]" 0 s1] obtain rs pc s2 where
    b: "cq_loop env g cqs [] 0 s1 = (Inr (rs, pc), s2)" by force
  show ?thesis
    using assms(1) a b
    by (simp add: validate_with_competency_questions_def emit_log_def Let_def)
qed

section \<open>Failures\<close>

text \<open>A failed query is recorded when its identifier and its text can be logged.\<close>

lemma query_error_recorded:
  assumes "run_query env g (dict_get c ''sparql'' (PStr [])) = Inl msg"
    and "json_ok (py_or (dict_get c ''id'' PNone) (py_or (dict_get c ''name'' PNone) (PStr ''unnamed'')))"
    and "json_ok (dict_get c ''sparql'' (PStr []))"
  shows "\<exists>e s'. validate_with_competency_question env g c rs s = (Inr e, s') \<and>
               \<not> passed e \<and> error e = Some msg \<and> actual e = PNone"
  using assms by (simp add: validate_with_competency_question_def emit_log_def Let_def)

text \<open>
  Claim C6, at a batch whose first question has a malformed query and expects a date. The
  failure of the query is caught and recorded, but writing the outcome to the log raises
  \<^verbatim>\<open>TypeError\<close>, since \<open>emit_log\<close> serialises outside any \<^verbatim>\<open>try\<close>: the evaluator raises, the
  second question is never run, and no report is returned. The same happens inside the
  handler when the query field itself is a date.
\<close>

theorem bad_query_with_date_aborts_batch:
  "fst (validate_with_competency_questions demo_env ''doc'' [cq_malformed_date, cq_ask_unset] init_state)
     = Inl (TypeError ''Object is not JSON serializable'') \<and>
   stages (snd (validate_with_competency_questions demo_env ''doc'' [cq_malformed_date, cq_ask_unset] init_state))
     = [''CQ_validation_start'', ''competency_question_error''] \<and>
   fst (validate_with_competency_question demo_env () cq_date_query [] init_state)
     = Inl (TypeError ''Object is not JSON serializable'')"
  by (simp add: validate_with_competency_questions_def validate_with_competency_question_def
        demo_env_def demo_parse_def demo_query_def cq_malformed_date_def cq_ask_unset_def
        cq_date_query_def emit_log_def dict_get_def py_or_def Let_def init_state_def stages_def)

text \<open>
  A document that does not parse: the cycle yields the fixed message and the single log
  line \<^verbatim>\<open>ttl_invalid\<close>; no report is built or written.
\<close>

theorem syntax_failure_no_report:
  "fst (validate_output demo_env ''<s> <p>'' ''dest'' init_state) = Inr (Some ''Failed to load Turtle file.'') \<and>
   written_reports (snd (validate_output demo_env ''<s> <p>'' ''dest'' init_state)) = [] \<and>
   stages (snd (validate_output demo_env ''<s> <p>'' ''dest'' init_state)) = [''ttl_invalid'']"
  by (simp add: validate_output_def validate_ttl_def demo_env_def demo_parse_def emit_log_def
        Let_def init_state_def stages_def)

text \<open>
  Claim C7, as the code has it. When the document does not parse, \<open>validate_output\<close>
  returns the message \<^verbatim>\<open>Failed to load Turtle file.\<close> right after the syntax check and
  \<open>main\<close> of the validator stops with the parser's exception: the only line logged is
  \<^verbatim>\<open>ttl_invalid\<close>, so neither the consistency check nor the evaluator has run, no report
  is written and no request is made.
\<close>

theorem syntax_failure_gate:
  assumes "parse_turtle env ttl_text = Inl msg"
  shows "\<exists>s'. validate_output env ttl_text d s = (Inr (Some ''Failed to load Turtle file.''), s') \<and>
              validator_main env ttl_text cqs s = (Inl (ParseError msg), s') \<and>
              stages s' = stages s @ [''ttl_invalid''] \<and>
              written_reports s' = written_reports s \<and>
              llm_calls s' = llm_calls s"
  using assms
  by (simp add: validate_output_def validator_main_def validate_ttl_def emit_log_def Let_def
        stages_def)

theorem syntax_failure_gate_witness:
  "parse_turtle demo_env ''<s> <p>'' = Inl ''Bad syntax at line 1'' \<and>
   (\<exists>s'. validate_output demo_env ''<s> <p>'' ''dest'' init_state
            = (Inr (Some ''Failed to load Turtle file.''), s') \<and>
         validator_main demo_env ''<s> <p>'' demo_cqs init_state
            = (Inl (ParseError ''Bad syntax at line 1''), s') \<and>
         stages s' = [''ttl_invalid''] \<and> written_reports s' = [])"
proof -
  have p: "parse_turtle demo_env ''<s> <p>'' = Inl ''Bad syntax at line 1''"
    by (simp add: demo_env_def demo_parse_def)
  from syntax_failure_gate [OF p, of "''dest''" init_state demo_cqs] p show ?thesis
    by (auto simp: init_state_def stages_def)
qed

text \<open>
  A reasoner that fails for another reason than an inconsistent ontology: the exception
  reaches the caller.
\<close>

theorem reasoner_failure_raises:
  "check_consistency no_java_env () init_state = (Inl (ReasonerError ''Java error message is:''), init_state)"
  by (simp add: check_consistency_def no_java_env_def demo_env_def)

text \<open>
  Claim C8, as the code has it. An inconsistent ontology gives the single summary string;
  a finished classification gives the empty list when the joined class names are empty,
  and otherwise one message with the names joined by a comma in the order the reasoner
  lists them; the result never has more than one string. Any other failure of the
  reasoner is raised to the caller.
\<close>

theorem check_consistency_outcomes:
  "(reasoner env g = InconsistentOntology \<longrightarrow>
      fst (check_consistency env g s) = Inr [''The ontology is inconsistent'']) \<and>
   (\<forall>names. reasoner env g = Classified names \<longrightarrow>
      fst (check_consistency env g s) =
        Inr (if join '', '' names = [] then []
             else [''There are inconsistent classes in the ontology: '' @ join '', '' names])) \<and>
   (\<forall>msg. reasoner env g = ReasonerFailed msg \<longrightarrow>
      check_consistency env g s = (Inl (ReasonerError msg), s)) \<and>
   (\<forall>issues. fst (check_consistency env g s) = Inr issues \<longrightarrow> length issues \<le> 1)"
  by (cases "reasoner env g") (auto simp: check_consistency_def emit_log_def Let_def)

theorem check_consistency_outcomes_witness:
  "reasoner unsat_env () = Classified [''Dog'', ''Cat''] \<and>
   fst (check_consistency unsat_env () init_state) =
     Inr [''There are inconsistent classes in the ontology: Dog, Cat''] \<and>
   reasoner demo_env () = Classified [] \<and>
   fst (check_consistency demo_env () init_state) = Inr []"
proof -
  have r: "reasoner unsat_env () = Classified [''Dog'', ''Cat'']"
    by (simp add: unsat_env_def demo_env_def)
  have r0: "reasoner demo_env () = Classified []"
    by (simp add: demo_env_def)
  from check_consistency_outcomes [of unsat_env "()" init_state]
       check_consistency_outcomes [of demo_env "()" init_state] r r0
  show ?thesis by simp
qed

end
